theory Spec2Isabelle
  imports Main
begin

section \<open>The study timer component (src/components/StudyTimer.tsx)\<close>

subsection \<open>Formatting the remaining time\<close>

text \<open>
  A JavaScript number is a double. \<open>formatTime\<close> is modelled on the integers: its
  argument is the value of the number it is given, which is an integer that is a double
  (\<open>is_double\<close>), and the arithmetic on it is the arithmetic of doubles: the quotient
  \<open>seconds / 60\<close> is rounded to the nearest double, ties to the even mantissa, before
  \<open>Math.floor\<close> is taken, and \<open>toString\<close> prints the shortest decimal digits that
  read back as the same double. The remainder \<open>%\<close> is exact. Numbers beyond the range
  of the doubles (\<open>2^1024\<close> and more) are left out.
\<close>

definition MAX_SAFE_INTEGER :: nat where
  "MAX_SAFE_INTEGER = 2 ^ 53 - 1"

text \<open>The number of binary digits of a natural number.\<close>

fun bit_length :: "nat \<Rightarrow> nat" where
  "bit_length n = (if n = 0 then 0 else Suc (bit_length (n div 2)))"

declare bit_length.simps [simp del]

text \<open>The integer nearest to \<open>a / b\<close>; of two that are equally near, the even one.\<close>

definition round_half_even :: "nat \<Rightarrow> nat \<Rightarrow> nat" where
  "round_half_even a b =
     (let q = a div b; r = a mod b
      in if 2 * r < b then q else if b < 2 * r then q + 1 else if even q then q else q + 1)"

text \<open>The double nearest to a natural number: a mantissa of 53 binary digits.\<close>

definition round_nat :: "nat \<Rightarrow> nat" where
  "round_nat c =
     (if bit_length c \<le> 53 then c
      else (let p = bit_length c - 53 in round_half_even c (2 ^ p) * 2 ^ p))"

definition is_double :: "nat \<Rightarrow> bool" where
  "is_double n = (round_nat n = n)"

text \<open>
  The double nearest to \<open>a / b\<close>, for \<open>a\<close> and \<open>b\<close> positive, as a mantissa \<open>m\<close> and a
  binary exponent \<open>p\<close>: its value is \<open>m * 2^p\<close>. With \<open>e\<close> such that
  \<open>2^e \<le> a / b < 2^(e + 1)\<close>, the mantissa is \<open>a / b\<close> in units of \<open>2^(e - 52)\<close>,
  rounded.
\<close>

definition double_quot :: "nat \<Rightarrow> nat \<Rightarrow> nat \<times> int" where
  "double_quot a b =
     (let d = int (bit_length a) - int (bit_length b);
          e = (if (if 0 \<le> d then b * 2 ^ nat d \<le> a else b \<le> a * 2 ^ nat (- d)) then d else d - 1);
          p = e - 52
      in if 0 \<le> p then (round_half_even a (b * 2 ^ nat p), p)
         else (round_half_even (a * 2 ^ nat (- p)) b, p))"

definition floor_double :: "nat \<times> int \<Rightarrow> nat" where
  "floor_double x =
     (case x of (m, p) \<Rightarrow> if 0 \<le> p then m * 2 ^ nat p else m div 2 ^ nat (- p))"

definition ceiling_double :: "nat \<times> int \<Rightarrow> nat" where
  "ceiling_double x =
     (case x of (m, p) \<Rightarrow>
        if 0 \<le> p then m * 2 ^ nat p else (m + 2 ^ nat (- p) - 1) div 2 ^ nat (- p))"

text \<open>\<open>Math.floor(a / b)\<close>: the quotient of a negative number is rounded as that of its
  magnitude, and its floor is the ceiling of the magnitude, negated.\<close>

definition Math_floor_div :: "int \<Rightarrow> nat \<Rightarrow> int" where
  "Math_floor_div a b =
     (if a = 0 then 0
      else if 0 < a then int (floor_double (double_quot (nat a) b))
      else - int (ceiling_double (double_quot (nat (- a)) b)))"

definition digit_char :: "nat \<Rightarrow> char" where
  "digit_char d =
     (if d = 0 then CHR ''0'' else if d = 1 then CHR ''1'' else if d = 2 then CHR ''2''
      else if d = 3 then CHR ''3'' else if d = 4 then CHR ''4'' else if d = 5 then CHR ''5''
      else if d = 6 then CHR ''6'' else if d = 7 then CHR ''7'' else if d = 8 then CHR ''8''
      else CHR ''9'')"

text \<open>The decimal digits of a natural number, most significant first, and their number.\<close>

fun decimal_digits :: "nat \<Rightarrow> string" where
  "decimal_digits n =
     (if n < 10 then [digit_char n] else decimal_digits (n div 10) @ [digit_char (n mod 10)])"

declare decimal_digits.simps [simp del]

fun decimal_length :: "nat \<Rightarrow> nat" where
  "decimal_length n = (if n < 10 then 1 else Suc (decimal_length (n div 10)))"

declare decimal_length.simps [simp del]

text \<open>
  \<open>Number.prototype.toString\<close> on a positive integer \<open>x\<close> that is a double takes
  integers \<open>s\<close>, \<open>k\<close> and \<open>n\<close> such that \<open>s\<close> has \<open>k\<close> digits, the double nearest to
  \<open>s * 10^(n - k)\<close> is \<open>x\<close>, and \<open>k\<close> is as small as possible; of several such \<open>s\<close> the
  one nearest to \<open>x\<close>, and the even one of two equally near. Here \<open>j\<close> is \<open>n - k\<close>, the
  number of digits dropped from \<open>x\<close>, which has \<open>D\<close> digits. Rounding is monotonic, so
  that for a given \<open>j\<close> only the two multiples of \<open>10^j\<close> around \<open>x\<close> need to be tried.
\<close>

definition candidate :: "nat \<Rightarrow> nat \<Rightarrow> nat \<Rightarrow> nat option" where
  "candidate x D j =
     (let scale = 10 ^ j; lo = x div scale; hi = lo + 1;
          ok_lo = (round_nat (lo * scale) = x);
          ok_hi = (hi < 10 ^ (D - j) \<and> round_nat (hi * scale) = x)
      in if ok_lo \<and> ok_hi then
           (let dl = x - lo * scale; dh = hi * scale - x
            in Some (if dl < dh then lo else if dh < dl then hi else if even lo then lo else hi))
         else if ok_lo then Some lo
         else if ok_hi then Some hi
         else None)"

text \<open>The most digits that can be dropped, tried from \<open>j\<close> downwards; none can be
  dropped when \<open>j\<close> is 0.\<close>

fun shortest_digits :: "nat \<Rightarrow> nat \<Rightarrow> nat \<Rightarrow> nat \<times> nat" where
  "shortest_digits x D j =
     (if j = 0 then (x, 0)
      else case candidate x D j of Some s \<Rightarrow> (s, j) | None \<Rightarrow> shortest_digits x D (j - 1))"

declare shortest_digits.simps [simp del]

text \<open>The form with an exponent, used when \<open>n\<close> is above 21: \<open>1e+21\<close>, \<open>1.5e+22\<close>.\<close>

definition exponential :: "nat \<Rightarrow> nat \<Rightarrow> string" where
  "exponential s n =
     (let ds = decimal_digits s
      in (if length ds = 1 then ds else hd ds # CHR ''.'' # tl ds) @ ''e+'' @ decimal_digits (n - 1))"

text \<open>A power of ten that rounds to \<open>x\<close> from above is the shortest of all: one digit.\<close>

definition Number_toString :: "nat \<Rightarrow> string" where
  "Number_toString x =
     (if x = 0 then ''0''
      else (let D = decimal_length x;
                sj = (if round_nat (10 ^ D) = x then (1, D) else shortest_digits x D (D - 1));
                s = fst sj; j = snd sj;
                n = decimal_length s + j
            in if n \<le> 21 then decimal_digits s @ replicate j (CHR ''0'') else exponential s n))"

definition toString :: "int \<Rightarrow> string" where
  "toString i = (if i < 0 then CHR ''-'' # Number_toString (nat (- i)) else Number_toString (nat i))"

text \<open>\<open>s.padStart(n, c)\<close> with a pad string of one character: the string is returned
  as it is when it already has \<open>n\<close> characters or more.\<close>

definition padStart :: "nat \<Rightarrow> char \<Rightarrow> string \<Rightarrow> string" where
  "padStart n c s = replicate (n - length s) c @ s"

text \<open>The remainder operator \<open>%\<close> of JavaScript truncates: the result has the sign of
  the dividend. On doubles it is exact.\<close>

definition js_rem :: "int \<Rightarrow> int \<Rightarrow> int" where
  "js_rem a b = sgn a * (\<bar>a\<bar> mod \<bar>b\<bar>)"

text \<open>
  \<^verbatim>\<open>const mins = Math.floor(seconds / 60);\<close>
  \<^verbatim>\<open>const secs = seconds % 60;\<close>
  \<^verbatim>\<open>return `${mins.toString().padStart(2, '0')}:${secs.toString().padStart(2, '0')}`;\<close>
\<close>

definition formatTime :: "int \<Rightarrow> string" where
  "formatTime seconds =
     (let mins = Math_floor_div seconds 60;
          secs = js_rem seconds 60
      in padStart 2 (CHR ''0'') (toString mins) @ '':'' @ padStart 2 (CHR ''0'') (toString secs))"

text \<open>Reading a string of decimal digits back as a number, to state what a decimal
  rendering is without referring to the function that produces it.\<close>

definition is_digit :: "char \<Rightarrow> bool" where
  "is_digit c = (c \<in> set ''0123456789'')"

definition digit_val :: "char \<Rightarrow> nat" where
  "digit_val c = of_char c - 48"

definition digits_val :: "string \<Rightarrow> nat" where
  "digits_val cs = foldl (\<lambda>a c. 10 * a + digit_val c) 0 cs"

subsection \<open>Data model (src/types/index.ts)\<close>

record TimerState =
  is_running :: bool
  is_break :: bool
  current_session :: int
  time_remaining :: int
  topic :: "string option"

text \<open>The fields \<open>is_break\<close> and \<open>time_remaining\<close> of the statistics carry a prefix
  here, since a field name is declared once.\<close>

record TimerStats =
  sessions_completed :: int
  total_study_minutes :: int
  total_break_minutes :: int
  current_topic :: "string option"
  stats_is_break :: bool
  stats_time_remaining :: string

subsection \<open>The API client (lib/api.ts), timer endpoints\<close>

datatype jsval = Str string | Num int | Undefined

datatype http_method = GET | POST

record http_request =
  http_method :: http_method
  path :: string
  params :: "(string \<times> jsval) list"

text \<open>An argument left out of a call is \<open>None\<close> and takes the default of the signature.\<close>

definition createTimer ::
  "string \<Rightarrow> int option \<Rightarrow> int option \<Rightarrow> int option \<Rightarrow> int option \<Rightarrow> http_request" where
  "createTimer userId studyDuration breakDuration longBreakDuration sessionsUntilLongBreak =
     \<lparr>http_method = POST, path = ''/api/timer/create'',
      params = [(''user_id'', Str userId),
                (''study_duration'', Num (case studyDuration of None \<Rightarrow> 25 | Some d \<Rightarrow> d)),
                (''break_duration'', Num (case breakDuration of None \<Rightarrow> 5 | Some d \<Rightarrow> d)),
                (''long_break_duration'', Num (case longBreakDuration of None \<Rightarrow> 15 | Some d \<Rightarrow> d)),
                (''sessions_until_long_break'',
                   Num (case sessionsUntilLongBreak of None \<Rightarrow> 4 | Some d \<Rightarrow> d))]\<rparr>"

definition startTimer :: "string \<Rightarrow> string option \<Rightarrow> http_request" where
  "startTimer userId topic' =
     \<lparr>http_method = POST, path = ''/api/timer/start'',
      params = [(''user_id'', Str userId),
                (''topic'', case topic' of None \<Rightarrow> Undefined | Some t \<Rightarrow> Str t)]\<rparr>"

definition pauseTimer :: "string \<Rightarrow> http_request" where
  "pauseTimer userId =
     \<lparr>http_method = POST, path = ''/api/timer/pause'', params = [(''user_id'', Str userId)]\<rparr>"

definition resetTimer :: "string \<Rightarrow> http_request" where
  "resetTimer userId =
     \<lparr>http_method = POST, path = ''/api/timer/reset'', params = [(''user_id'', Str userId)]\<rparr>"

definition getTimerState :: "string \<Rightarrow> http_request" where
  "getTimerState userId =
     \<lparr>http_method = GET, path = ''/api/timer/state'', params = [(''user_id'', Str userId)]\<rparr>"

definition getTimerStats :: "string \<Rightarrow> http_request" where
  "getTimerStats userId =
     \<lparr>http_method = GET, path = ''/api/timer/stats'', params = [(''user_id'', Str userId)]\<rparr>"

subsection \<open>Faults, promises and the browser\<close>

text \<open>
  A handler either returns the new state or throws. \<open>SyntaxError\<close> is what
  \<open>JSON.parse\<close> throws, \<open>TypeError\<close> a property read on \<open>null\<close>, \<open>AxiosError\<close> the
  reason of a rejected request.
\<close>

datatype fault = SyntaxError | TypeError | AxiosError

type_synonym 'a result = "fault + 'a"

datatype 'a settled = Resolved 'a | Rejected

definition await :: "'a settled \<Rightarrow> 'a result" where
  "await p = (case p of Resolved v \<Rightarrow> Inr v | Rejected \<Rightarrow> Inl AxiosError)"

definition try_catch :: "'a result \<Rightarrow> (fault \<Rightarrow> 'a result) \<Rightarrow> 'a result" where
  "try_catch body handler = (case body of Inl e \<Rightarrow> handler e | Inr v \<Rightarrow> Inr v)"

datatype ready_state = CONNECTING | OPEN | CLOSING | CLOSED

record socket =
  url :: string
  readyState :: ready_state

datatype permission = PermissionDefault | PermissionGranted | PermissionDenied

text \<open>Everything the component does to the outside, in the order it does it.\<close>

datatype effect =
    Http http_request
  | NewWebSocket string
  | CloseCall nat
  | SetTimeout nat
  | ToastSuccess string "nat option"
  | ToastError string
  | SystemNotification string string
  | ConsoleLog string
  | ConsoleError string
  | Uncaught fault

text \<open>
  The data of a message event: text that is not JSON, the JSON value \<open>null\<close>, or a JSON
  value whose fields \<open>state\<close> and \<open>notification\<close> are read (a field that is missing
  or \<open>null\<close> is \<open>None\<close>).
\<close>

record push_message =
  state :: "TimerState option"
  notification :: "string option"

datatype ws_data = NotJson | JsonNull | JsonObject push_message

definition JSON_parse :: "ws_data \<Rightarrow> push_message option result" where
  "JSON_parse d =
     (case d of NotJson \<Rightarrow> Inl SyntaxError | JsonNull \<Rightarrow> Inr None | JsonObject m \<Rightarrow> Inr (Some m))"

subsection \<open>The state of the component\<close>

text \<open>
  \<open>NEXT_PUBLIC_API_URL\<close> is the environment variable as the module reads it and
  \<open>notification_permission\<close> is \<open>Notification.permission\<close> (\<open>None\<close> when the window has
  no \<open>Notification\<close>). \<open>timerState\<close>, \<open>stats\<close> and \<open>isConnected\<close> are the React state,
  \<open>wsRef\<close> is the ref (a handle is an index into \<open>sockets\<close>, the WebSockets constructed
  so far), \<open>timers\<close> the delays of the pending \<open>setTimeout\<close> callbacks, all of them the
  reconnect callback of \<open>onclose\<close>. The identity key is fixed for the life of the client.
\<close>

record client =
  NEXT_PUBLIC_API_URL :: "string option"
  notification_permission :: "permission option"
  userId :: string
  currentTopic :: "string option"
  timerState :: "TimerState option"
  stats :: "TimerStats option"
  isConnected :: bool
  wsRef :: "nat option"
  sockets :: "socket list"
  timers :: "nat list"
  effects :: "effect list"

definition StudyTimer :: "string option \<Rightarrow> permission option \<Rightarrow> string option \<Rightarrow> string option \<Rightarrow> client" where
  "StudyTimer env perm userId' currentTopic' =
     \<lparr>NEXT_PUBLIC_API_URL = env, notification_permission = perm,
      userId = (case userId' of None \<Rightarrow> ''default_user'' | Some u \<Rightarrow> u),
      currentTopic = currentTopic',
      timerState = None, stats = None, isConnected = False, wsRef = None,
      sockets = [], timers = [], effects = []\<rparr>"

definition emit :: "effect \<Rightarrow> client \<Rightarrow> client" where
  "emit e s = s\<lparr>effects := effects s @ [e]\<rparr>"

subsection \<open>The address of the live connection\<close>

text \<open>\<open>a || b\<close> on strings: \<open>b\<close> when \<open>a\<close> is undefined or empty.\<close>

definition API_URL :: "string option \<Rightarrow> string" where
  "API_URL env =
     (case env of None \<Rightarrow> ''http://localhost:8000''
      | Some u \<Rightarrow> if u = [] then ''http://localhost:8000'' else u)"

text \<open>\<open>s.replace(pat, rep)\<close> with a string pattern replaces the first occurrence only.\<close>

fun String_replace :: "string \<Rightarrow> string \<Rightarrow> string \<Rightarrow> string" where
  "String_replace pat rep [] = (if pat = [] then rep else [])"
| "String_replace pat rep (c # cs) =
     (if take (length pat) (c # cs) = pat then rep @ drop (length pat) (c # cs)
      else c # String_replace pat rep cs)"

definition WS_URL :: "string option \<Rightarrow> string" where
  "WS_URL env = String_replace ''http'' ''ws'' (API_URL env)"

definition ws_address :: "string option \<Rightarrow> string \<Rightarrow> string" where
  "ws_address env uid = WS_URL env @ ''/api/timer/ws/'' @ uid"

subsection \<open>The live connection\<close>

text \<open>
  \<^verbatim>\<open>const ws = new WebSocket(`${WS_URL}/api/timer/ws/${userId}`); ... wsRef.current = ws;\<close>
  A new socket is in the state \<open>CONNECTING\<close>.
\<close>

definition connectWebSocket :: "client \<Rightarrow> client" where
  "connectWebSocket s =
     (let a = ws_address (NEXT_PUBLIC_API_URL s) (userId s);
          ws = length (sockets s)
      in (emit (NewWebSocket a) s)
           \<lparr>sockets := sockets s @ [\<lparr>url = a, readyState = CONNECTING\<rparr>], wsRef := Some ws\<rparr>)"

definition onopen :: "client \<Rightarrow> client" where
  "onopen s = (emit (ConsoleLog ''WebSocket connected'') s)\<lparr>isConnected := True\<rparr>"

text \<open>
  \<^verbatim>\<open>const data = JSON.parse(event.data); setTimerState(data.state);\<close>
  \<^verbatim>\<open>if (data.notification) { toast.success(data.notification, { duration: 5000 });\<close>
  \<^verbatim>\<open>  if ('Notification' in window && Notification.permission === 'granted') {\<close>
  \<^verbatim>\<open>    new Notification('Study Timer', { body: data.notification }); } }\<close>
  The test \<open>if (data.notification)\<close> is false for a missing field, for \<open>null\<close> and for
  the empty string.
\<close>

definition onmessage :: "ws_data \<Rightarrow> client \<Rightarrow> client result" where
  "onmessage d s =
     (case JSON_parse d of
        Inl e \<Rightarrow> Inl e
      | Inr None \<Rightarrow> Inl TypeError
      | Inr (Some data) \<Rightarrow>
          (let s1 = s\<lparr>timerState := state data\<rparr>
           in case notification data of
                None \<Rightarrow> Inr s1
              | Some text \<Rightarrow>
                  if text = [] then Inr s1
                  else (let s2 = emit (ToastSuccess text (Some 5000)) s1
                        in if notification_permission s2 = Some PermissionGranted
                           then Inr (emit (SystemNotification ''Study Timer'' text) s2)
                           else Inr s2)))"

definition onerror :: "client \<Rightarrow> client" where
  "onerror s = (emit (ConsoleError ''WebSocket error:'') s)\<lparr>isConnected := False\<rparr>"

definition ref_readyState :: "client \<Rightarrow> ready_state option" where
  "ref_readyState s =
     (case wsRef s of None \<Rightarrow> None
      | Some i \<Rightarrow> if i < length (sockets s) then Some (readyState (sockets s ! i)) else None)"

text \<open>The callback given to \<open>setTimeout\<close>:
  \<^verbatim>\<open>if (wsRef.current?.readyState === WebSocket.CLOSED) { connectWebSocket(); }\<close>\<close>

definition reconnect :: "client \<Rightarrow> client" where
  "reconnect s = (if ref_readyState s = Some CLOSED then connectWebSocket s else s)"

definition onclose :: "client \<Rightarrow> client" where
  "onclose s =
     (let s1 = (emit (ConsoleLog ''WebSocket disconnected'') s)\<lparr>isConnected := False\<rparr>
      in (emit (SetTimeout 3000) s1)\<lparr>timers := timers s1 @ [3000]\<rparr>)"

definition set_readyState :: "nat \<Rightarrow> ready_state \<Rightarrow> client \<Rightarrow> client" where
  "set_readyState i r s = s\<lparr>sockets := (sockets s)[i := (sockets s ! i)\<lparr>readyState := r\<rparr>]\<rparr>"

text \<open>\<open>ws.close()\<close> of the browser: a socket that is connecting or open starts closing,
  any other is left as it is.\<close>

definition WebSocket_close :: "nat \<Rightarrow> client \<Rightarrow> client" where
  "WebSocket_close i s =
     (if i < length (sockets s) \<and> readyState (sockets s ! i) \<in> {CONNECTING, OPEN}
      then set_readyState i CLOSING s else s)"

text \<open>The cleanup of the effect: \<^verbatim>\<open>if (wsRef.current) { wsRef.current.close(); }\<close>\<close>

definition cleanup :: "client \<Rightarrow> client" where
  "cleanup s = (case wsRef s of None \<Rightarrow> s | Some i \<Rightarrow> WebSocket_close i (emit (CloseCall i) s))"

subsection \<open>Requests: the part before the \<open>await\<close> and the part after it\<close>

text \<open>The response interceptor of the API client logs a rejection and passes it on.\<close>

definition interceptor :: "'a settled \<Rightarrow> client \<Rightarrow> client" where
  "interceptor p s = (case p of Resolved v \<Rightarrow> s | Rejected \<Rightarrow> emit (ConsoleError ''API Error:'') s)"

definition fetchTimerState :: "client \<Rightarrow> client" where
  "fetchTimerState s = emit (Http (getTimerState (userId s))) s"

definition fetchTimerState_resume :: "TimerState option settled \<Rightarrow> client \<Rightarrow> client result" where
  "fetchTimerState_resume p s =
     try_catch
       (case await p of Inl e \<Rightarrow> Inl e | Inr st \<Rightarrow> Inr (s\<lparr>timerState := st\<rparr>))
       (\<lambda>error. Inr (emit (ConsoleError ''Error fetching timer state:'') s))"

definition fetchStats :: "client \<Rightarrow> client" where
  "fetchStats s = emit (Http (getTimerStats (userId s))) s"

definition fetchStats_resume :: "TimerStats option settled \<Rightarrow> client \<Rightarrow> client result" where
  "fetchStats_resume p s =
     try_catch
       (case await p of Inl e \<Rightarrow> Inl e | Inr st \<Rightarrow> Inr (s\<lparr>stats := st\<rparr>))
       (\<lambda>error. Inr (emit (ConsoleError ''Error fetching stats:'') s))"

definition initializeTimer :: "client \<Rightarrow> client" where
  "initializeTimer s = emit (Http (createTimer (userId s) (Some 25) (Some 5) (Some 15) (Some 4))) s"

definition initializeTimer_resume :: "unit settled \<Rightarrow> client \<Rightarrow> client result" where
  "initializeTimer_resume p s =
     try_catch
       (case await p of Inl e \<Rightarrow> Inl e | Inr u \<Rightarrow> Inr (fetchStats (fetchTimerState s)))
       (\<lambda>error. Inr (emit (ConsoleError ''Timer initialization error:'') s))"

definition handleStart :: "client \<Rightarrow> client" where
  "handleStart s = emit (Http (startTimer (userId s) (currentTopic s))) s"

definition handleStart_resume :: "unit settled \<Rightarrow> client \<Rightarrow> client result" where
  "handleStart_resume p s =
     try_catch
       (case await p of Inl e \<Rightarrow> Inl e | Inr u \<Rightarrow> Inr (emit (ToastSuccess ''Timer started!'' None) s))
       (\<lambda>error. Inr (emit (ToastError ''Failed to start timer'') s))"

definition handlePause :: "client \<Rightarrow> client" where
  "handlePause s = emit (Http (pauseTimer (userId s))) s"

definition handlePause_resume :: "unit settled \<Rightarrow> client \<Rightarrow> client result" where
  "handlePause_resume p s =
     try_catch
       (case await p of Inl e \<Rightarrow> Inl e | Inr u \<Rightarrow> Inr (emit (ToastSuccess ''Timer paused'' None) s))
       (\<lambda>error. Inr (emit (ToastError ''Failed to pause timer'') s))"

definition handleReset :: "client \<Rightarrow> client" where
  "handleReset s = emit (Http (resetTimer (userId s))) s"

definition handleReset_resume :: "unit settled \<Rightarrow> client \<Rightarrow> client result" where
  "handleReset_resume p s =
     try_catch
       (case await p of Inl e \<Rightarrow> Inl e
        | Inr u \<Rightarrow> Inr (emit (ToastSuccess ''Timer reset'' None) (fetchStats s)))
       (\<lambda>error. Inr (emit (ToastError ''Failed to reset timer'') s))"

subsection \<open>The event loop\<close>

datatype command = Start | Pause | Reset

text \<open>
  One event is one turn of the event loop: the effect of the component running or being
  cleaned up, a request settling, an event of a socket (the browser sets \<open>readyState\<close>
  before it calls \<open>onopen\<close> or \<open>onclose\<close>), a pending timer firing, a button being
  pressed. An event of a socket or a timer that does not exist does nothing.

  A client is one instance of the component. \<open>Mount\<close> is its effect running when it is
  mounted and \<open>Unmount\<close> the cleanup when it is unmounted; the callbacks it has
  registered still run afterwards. \<open>EffectRerun\<close> is the cleanup followed at once by
  the effect on the same instance, with its state and its ref kept and the identity
  key the same: what React does after the first mount under \<open>reactStrictMode: true\<close>,
  which \<open>next.config.js\<close> sets. A component mounted again after its unmount is another
  instance, with a state and a ref of its own: another client, and not a \<open>Mount\<close> after
  \<open>Unmount\<close> of this one.
\<close>

datatype event =
    Mount
  | Unmount
  | EffectRerun
  | CreateSettled "unit settled"
  | StateSettled "TimerState option settled"
  | StatsSettled "TimerStats option settled"
  | WsOpen nat
  | WsMessage ws_data
  | WsError
  | WsClose nat
  | TimerFired nat
  | Click command
  | CommandSettled command "unit settled"

text \<open>The button pressed selects the handler; so does the request that settles.\<close>

fun command_start :: "command \<Rightarrow> client \<Rightarrow> client" where
  "command_start Start s = handleStart s"
| "command_start Pause s = handlePause s"
| "command_start Reset s = handleReset s"

fun command_resume :: "command \<Rightarrow> unit settled \<Rightarrow> client \<Rightarrow> client result" where
  "command_resume Start p s = handleStart_resume p s"
| "command_resume Pause p s = handlePause_resume p s"
| "command_resume Reset p s = handleReset_resume p s"

text \<open>A fault that leaves a handler is reported and the state stays as it was.\<close>

definition settle :: "client \<Rightarrow> client result \<Rightarrow> client" where
  "settle s r = (case r of Inl e \<Rightarrow> emit (Uncaught e) s | Inr s' \<Rightarrow> s')"

definition cancel :: "nat \<Rightarrow> client \<Rightarrow> client" where
  "cancel k s = s\<lparr>timers := take k (timers s) @ drop (Suc k) (timers s)\<rparr>"

fun step :: "client \<Rightarrow> event \<Rightarrow> client" where
  "step s Mount = connectWebSocket (initializeTimer s)"
| "step s Unmount = cleanup s"
| "step s EffectRerun = connectWebSocket (initializeTimer (cleanup s))"
| "step s (CreateSettled p) =
     (let s1 = interceptor p s in settle s1 (initializeTimer_resume p s1))"
| "step s (StateSettled p) =
     (let s1 = interceptor p s in settle s1 (fetchTimerState_resume p s1))"
| "step s (StatsSettled p) =
     (let s1 = interceptor p s in settle s1 (fetchStats_resume p s1))"
| "step s (WsOpen i) = (if i < length (sockets s) then onopen (set_readyState i OPEN s) else s)"
| "step s (WsMessage d) = settle s (onmessage d s)"
| "step s WsError = onerror s"
| "step s (WsClose i) = (if i < length (sockets s) then onclose (set_readyState i CLOSED s) else s)"
| "step s (TimerFired k) = (if k < length (timers s) then reconnect (cancel k s) else s)"
| "step s (Click c) = command_start c s"
| "step s (CommandSettled c p) =
     (let s1 = interceptor p s in settle s1 (command_resume c p s1))"

definition run :: "client \<Rightarrow> event list \<Rightarrow> client" where
  "run s es = foldl step s es"

subsection \<open>A client and two pushes, for the examples\<close>

definition example_client :: client where
  "example_client = StudyTimer None (Some PermissionGranted) (Some ''u1'') None"

definition example_state :: TimerState where
  "example_state =
     \<lparr>is_running = False, is_break = False, current_session = 1, time_remaining = 1500,
      topic = None\<rparr>"

definition example_push :: push_message where
  "example_push =
     \<lparr>state = Some (example_state\<lparr>is_running := True, time_remaining := 1490\<rparr>),
      notification = None\<rparr>"

definition break_push :: push_message where
  "break_push =
     \<lparr>state = Some (example_state\<lparr>is_break := True, time_remaining := 300\<rparr>),
      notification = Some ''Break time!''\<rparr>"

section \<open>Properties\<close>

subsection \<open>Doubles\<close>

lemma bit_length_le: "n < 2 ^ k \<Longrightarrow> bit_length n \<le> k"
proof (induction k arbitrary: n)
  case 0
  then show ?case by (simp add: bit_length.simps)
next
  case (Suc k)
  show ?case
  proof (cases "n = 0")
    case True
    then show ?thesis by (simp add: bit_length.simps)
  next
    case False
    from Suc.prems have "n div 2 < 2 ^ k" by simp
    then have "bit_length (n div 2) \<le> k" by (rule Suc.IH)
    with False show ?thesis by (subst bit_length.simps) simp
  qed
qed

lemma bit_length_less: "bit_length n \<le> k \<Longrightarrow> n < 2 ^ k"
proof (induction k arbitrary: n)
  case 0
  then show ?case by (subst (asm) bit_length.simps) (simp split: if_splits)
next
  case (Suc k)
  show ?case
  proof (cases "n = 0")
    case True
    then show ?thesis by simp
  next
    case False
    with Suc.prems have "bit_length (n div 2) \<le> k"
      by (subst (asm) bit_length.simps) simp
    then have "n div 2 < 2 ^ k" by (rule Suc.IH)
    then show ?thesis by simp
  qed
qed

lemma bit_length_lower: "0 < n \<Longrightarrow> 2 ^ (bit_length n - 1) \<le> n"
proof (rule ccontr)
  assume n: "0 < n" and "\<not> 2 ^ (bit_length n - 1) \<le> n"
  then have "n < 2 ^ (bit_length n - 1)" by simp
  then have "bit_length n \<le> bit_length n - 1" by (rule bit_length_le)
  moreover from n have "0 < bit_length n" by (subst bit_length.simps) simp
  ultimately show False by simp
qed

lemma round_half_even_lower: "a div b \<le> round_half_even a b"
  by (simp add: round_half_even_def Let_def)

lemma round_half_even_upper: "0 < b \<Longrightarrow> 2 * (b * round_half_even a b) \<le> 2 * a + b"
proof -
  assume "0 < b"
  define q r where "q = a div b" and "r = a mod b"
  have a: "a = b * q + r" by (simp add: q_def r_def)
  have 1: "2 * (b * q) \<le> 2 * a" by (simp add: a)
  have 2: "2 * (b * (q + 1)) \<le> 2 * a + b" if "b \<le> 2 * r"
    using that by (simp add: a algebra_simps)
  have "round_half_even a b = q \<or> (round_half_even a b = q + 1 \<and> b \<le> 2 * r)"
    by (auto simp: round_half_even_def Let_def q_def r_def)
  with 1 2 show ?thesis by auto
qed

text \<open>Below \<open>2^53\<close> every natural number is a double, and no other number rounds to
  it.\<close>

lemma round_nat_small: "c < 2 ^ 53 \<Longrightarrow> round_nat c = c"
  by (simp add: round_nat_def bit_length_le)

lemma round_nat_large:
  assumes "2 ^ 53 \<le> c"
  shows "2 ^ 53 \<le> round_nat c"
proof -
  let ?l = "bit_length c"
  have l: "53 < ?l"
  proof (rule ccontr)
    assume "\<not> 53 < ?l"
    then have "?l \<le> 53" by simp
    then have "c < 2 ^ 53" by (rule bit_length_less)
    with assms show False by simp
  qed
  let ?p = "?l - 53"
  from assms have "0 < c" by (simp add: less_le_trans [of 0 "2 ^ 53" c])
  then have "2 ^ (?l - 1) \<le> c" by (rule bit_length_lower)
  moreover have "(2::nat) ^ (?l - 1) = 2 ^ 52 * 2 ^ ?p"
  proof -
    from l have e: "?l - 1 = 52 + ?p" by simp
    show ?thesis unfolding e by (rule power_add)
  qed
  ultimately have "2 ^ 52 * 2 ^ ?p \<le> c" by simp
  then have "2 ^ 52 \<le> c div 2 ^ ?p"
    by (simp add: less_eq_div_iff_mult_less_eq)
  also have "\<dots> \<le> round_half_even c (2 ^ ?p)" by (rule round_half_even_lower)
  finally have m: "2 ^ 52 \<le> round_half_even c (2 ^ ?p)" .
  from l have "(2::nat) ^ 1 \<le> 2 ^ ?p" by (intro power_increasing) simp_all
  then have "(2::nat) \<le> 2 ^ ?p" by simp
  with m have "2 ^ 52 * 2 \<le> round_half_even c (2 ^ ?p) * 2 ^ ?p"
    by (rule mult_le_mono)
  then have "2 ^ 53 \<le> round_half_even c (2 ^ ?p) * 2 ^ ?p" by simp
  with l show ?thesis by (simp add: round_nat_def Let_def)
qed

lemma round_nat_exact: "x < 2 ^ 53 \<Longrightarrow> round_nat c = x \<Longrightarrow> c = x"
  using round_nat_small [of c] round_nat_large [of c] by (cases "c < 2 ^ 53") auto

text \<open>
  The quotient \<open>s / 60\<close> lies at least \<open>1/60\<close> below the next integer. Rounded to
  a multiple of \<open>1/T\<close> with \<open>T\<close> above 30 it stays below that integer, so that its
  floor is \<open>s div 60\<close>.
\<close>

lemma floor_of_rounded_quotient:
  assumes "30 < T"
  shows "round_half_even (s * T) 60 div T = s div 60"
proof (rule div_nat_eqI)
  let ?m = "round_half_even (s * T) 60" and ?q = "s div 60"
  have "60 * ?q \<le> s" by simp
  then have "60 * ?q * T \<le> s * T" by (rule mult_le_mono1)
  then have "(60 * (?q * T)) div 60 \<le> (s * T) div 60"
    by (intro div_le_mono) (simp add: mult.assoc)
  then have "?q * T \<le> (s * T) div 60" by simp
  also have "\<dots> \<le> ?m" by (rule round_half_even_lower)
  finally show "T * ?q \<le> ?m" by (simp add: mult.commute)
next
  let ?m = "round_half_even (s * T) 60" and ?q = "s div 60"
  have "2 * (60 * ?m) \<le> 2 * (s * T) + 60"
    by (rule round_half_even_upper) simp
  then have 1: "60 * ?m \<le> s * T + 30" by simp
  have "s \<le> 60 * ?q + 59"
  proof -
    have "s = 60 * ?q + s mod 60" by simp
    moreover have "s mod 60 \<le> 59" by (simp add: less_Suc_eq_le [symmetric])
    ultimately show ?thesis by linarith
  qed
  then have 2: "s * T \<le> (60 * ?q + 59) * T" by (rule mult_le_mono1)
  from 1 2 have "60 * ?m \<le> (60 * ?q + 59) * T + 30" by linarith
  also have "\<dots> < (60 * ?q + 59) * T + T" using assms by simp
  also have "\<dots> = 60 * (T * Suc ?q)" by (simp add: algebra_simps)
  finally show "?m < T * Suc ?q" by simp
qed

lemma bit_length_60: "bit_length 60 = 6"
  by (simp add: bit_length.simps [of "numeral k" for k] bit_length.simps [of "Suc 0"]
        bit_length.simps [of 0])

text \<open>For \<open>s\<close> below \<open>2^53\<close> the quotient is below \<open>2^48\<close>, and the unit of its
  mantissa is \<open>2^(-5)\<close> or finer.\<close>

lemma Math_floor_div_exact:
  assumes "s < 2 ^ 53"
  shows "Math_floor_div (int s) 60 = int (s div 60)"
proof (cases "s = 0")
  case True
  then show ?thesis by (simp add: Math_floor_div_def)
next
  case False
  define d where "d = int (bit_length s) - int (bit_length 60)"
  define e where
    "e = (if (if 0 \<le> d then 60 * 2 ^ nat d \<le> s else 60 \<le> s * 2 ^ nat (- d)) then d else d - 1)"
  define p where "p = e - 52"
  from assms have "bit_length s \<le> 53" by (rule bit_length_le)
  then have "d \<le> 47" by (simp add: d_def bit_length_60)
  moreover have "e \<le> d" by (simp add: e_def)
  ultimately have p: "p \<le> - 5" by (simp add: p_def)
  define T :: nat where "T = 2 ^ nat (- p)"
  from p have "5 \<le> nat (- p)" by simp
  then have "(2::nat) ^ 5 \<le> 2 ^ nat (- p)" by (intro power_increasing) simp_all
  then have T: "30 < T" by (simp add: T_def)
  have "double_quot s 60 =
      (if 0 \<le> p then (round_half_even s (60 * 2 ^ nat p), p)
       else (round_half_even (s * 2 ^ nat (- p)) 60, p))"
    unfolding double_quot_def p_def e_def d_def Let_def by simp
  with p have "double_quot s 60 = (round_half_even (s * T) 60, p)"
    by (simp add: T_def)
  with p have "floor_double (double_quot s 60) = round_half_even (s * T) 60 div T"
    by (simp add: floor_double_def T_def)
  also from T have "\<dots> = s div 60" by (rule floor_of_rounded_quotient)
  finally show ?thesis using False by (simp add: Math_floor_div_def)
qed

subsection \<open>Decimal digits\<close>

lemma digit_val_digit_char: "d < 10 \<Longrightarrow> digit_val (digit_char d) = d"
  by (simp add: digit_val_def digit_char_def)

lemma digit_val_zero: "digit_val (CHR ''0'') = 0"
  by (simp add: digit_val_def)

lemma is_digit_digit_char: "is_digit (digit_char d)"
  by (simp add: is_digit_def digit_char_def)

lemma digits_val_snoc: "digits_val (cs @ [c]) = 10 * digits_val cs + digit_val c"
  by (simp add: digits_val_def)

lemma digits_val_decimal_digits: "digits_val (decimal_digits n) = n"
proof (induction n rule: decimal_digits.induct)
  case (1 n)
  show ?case
  proof (cases "n < 10")
    case True
    then show ?thesis
      by (subst decimal_digits.simps) (simp add: digits_val_def digit_val_digit_char)
  next
    case False
    with 1 show ?thesis
      by (subst decimal_digits.simps) (simp add: digits_val_snoc digit_val_digit_char)
  qed
qed

lemma all_digits_decimal_digits: "list_all is_digit (decimal_digits n)"
proof (induction n rule: decimal_digits.induct)
  case (1 n)
  then show ?case
    by (subst decimal_digits.simps) (simp add: is_digit_digit_char)
qed

lemma decimal_digits_nonempty: "decimal_digits n \<noteq> []"
  by (subst decimal_digits.simps) simp

lemma hd_decimal_digits: "0 < n \<Longrightarrow> hd (decimal_digits n) \<noteq> CHR ''0''"
proof (induction n rule: decimal_digits.induct)
  case (1 n)
  show ?case
  proof (cases "n < 10")
    case True
    with 1(2) show ?thesis
      by (subst decimal_digits.simps) (simp add: digit_char_def)
  next
    case False
    then have "0 < n div 10" by simp
    with 1 False show ?thesis
      by (subst decimal_digits.simps) (simp add: decimal_digits_nonempty)
  qed
qed

lemma length_decimal_digits_small: "n < 10 \<Longrightarrow> length (decimal_digits n) = 1"
  by (subst decimal_digits.simps) simp

lemma length_decimal_digits_two: "10 \<le> n \<Longrightarrow> n < 100 \<Longrightarrow> length (decimal_digits n) = 2"
  by (subst decimal_digits.simps) (simp add: length_decimal_digits_small)

lemma length_decimal_digits_ge2: "10 \<le> n \<Longrightarrow> 2 \<le> length (decimal_digits n)"
  using decimal_digits_nonempty [of "n div 10"]
  by (subst decimal_digits.simps) (cases "decimal_digits (n div 10)"; simp)

lemma padStart_two_digits:
  "padStart 2 (CHR ''0'') (decimal_digits n) =
     (if n < 10 then [CHR ''0'', digit_char n] else decimal_digits n)"
proof (cases "n < 10")
  case True
  then show ?thesis
    by (subst decimal_digits.simps, subst (2) decimal_digits.simps) (simp add: padStart_def)
next
  case False
  then have "2 \<le> length (decimal_digits n)"
    by (simp add: length_decimal_digits_ge2)
  with False show ?thesis
    by (simp add: padStart_def)
qed

text \<open>Below \<open>2^53\<close> the shortest digits of a number are its own digits with the
  zeros at its end taken off, so that what is printed is its plain decimal form.\<close>

lemma decimal_length_upper: "x < 10 ^ decimal_length x"
proof (induction x rule: decimal_length.induct)
  case (1 n)
  show ?case
  proof (cases "n < 10")
    case True
    then show ?thesis by (subst decimal_length.simps) simp
  next
    case False
    with 1 have "n div 10 < 10 ^ decimal_length (n div 10)" by simp
    then have "n < 10 * 10 ^ decimal_length (n div 10)" by simp
    with False show ?thesis by (subst decimal_length.simps) simp
  qed
qed

lemma decimal_length_le: "x < 10 ^ k \<Longrightarrow> 0 < k \<Longrightarrow> decimal_length x \<le> k"
proof (induction k arbitrary: x)
  case 0
  then show ?case by simp
next
  case (Suc k)
  show ?case
  proof (cases "x < 10")
    case True
    then show ?thesis by (subst decimal_length.simps) simp
  next
    case False
    with Suc.prems have k: "0 < k" by (cases k) simp_all
    from Suc.prems have "x div 10 < 10 ^ k" by simp
    from this k have "decimal_length (x div 10) \<le> k" by (rule Suc.IH)
    with False show ?thesis by (subst decimal_length.simps) simp
  qed
qed

lemma decimal_length_times_10: "0 < a \<Longrightarrow> decimal_length (a * 10) = Suc (decimal_length a)"
  by (subst decimal_length.simps) simp

lemma decimal_length_shift: "0 < a \<Longrightarrow> decimal_length (a * 10 ^ j) = decimal_length a + j"
proof (induction j)
  case 0
  then show ?case by simp
next
  case (Suc j)
  then have "0 < a * 10 ^ j" by simp
  then have "decimal_length (a * 10 ^ j * 10) = Suc (decimal_length (a * 10 ^ j))"
    by (rule decimal_length_times_10)
  with Suc show ?case by (simp add: mult.assoc mult.commute [of 10])
qed

lemma decimal_digits_times_10:
  "0 < a \<Longrightarrow> decimal_digits (a * 10) = decimal_digits a @ [CHR ''0'']"
  by (subst decimal_digits.simps) (simp add: digit_char_def)

lemma decimal_digits_shift:
  "0 < a \<Longrightarrow> decimal_digits (a * 10 ^ j) = decimal_digits a @ replicate j (CHR ''0'')"
proof (induction j)
  case 0
  then show ?case by simp
next
  case (Suc j)
  then have "0 < a * 10 ^ j" by simp
  then have "decimal_digits (a * 10 ^ j * 10) = decimal_digits (a * 10 ^ j) @ [CHR ''0'']"
    by (rule decimal_digits_times_10)
  with Suc show ?case
    by (simp add: mult.assoc mult.commute [of 10] replicate_append_same)
qed

lemma candidate_exact:
  assumes "x < 2 ^ 53" and "candidate x D j = Some s"
  shows "s * 10 ^ j = x"
proof -
  define lo where "lo = x div 10 ^ j"
  define hi where "hi = lo + 1"
  have "candidate x D j =
     (if round_nat (lo * 10 ^ j) = x \<and> hi < 10 ^ (D - j) \<and> round_nat (hi * 10 ^ j) = x then
        Some (if x - lo * 10 ^ j < hi * 10 ^ j - x then lo
              else if hi * 10 ^ j - x < x - lo * 10 ^ j then hi
              else if even lo then lo else hi)
      else if round_nat (lo * 10 ^ j) = x then Some lo
      else if hi < 10 ^ (D - j) \<and> round_nat (hi * 10 ^ j) = x then Some hi
      else None)"
    unfolding candidate_def Let_def lo_def hi_def by (rule refl)
  with assms(2) have "(s = lo \<and> round_nat (lo * 10 ^ j) = x) \<or>
      (s = hi \<and> round_nat (hi * 10 ^ j) = x)"
    by (auto split: if_splits)
  then have "round_nat (s * 10 ^ j) = x" by auto
  with assms(1) show ?thesis by (rule round_nat_exact)
qed

lemma shortest_digits_exact:
  "x < 2 ^ 53 \<Longrightarrow> shortest_digits x D j = (s, j') \<Longrightarrow> s * 10 ^ j' = x"
proof (induction x D j rule: shortest_digits.induct)
  case (1 x D j)
  show ?case
  proof (cases "j = 0")
    case True
    with "1.prems" show ?thesis by (simp add: shortest_digits.simps)
  next
    case False
    show ?thesis
    proof (cases "candidate x D j")
      case None
      with False "1.prems" have "shortest_digits x D (j - 1) = (s, j')"
        by (subst (asm) shortest_digits.simps) simp
      with False None "1.prems"(1) show ?thesis by (intro "1.IH") simp_all
    next
      case (Some c)
      with False "1.prems" have "s = c" "j' = j"
        by (subst (asm) shortest_digits.simps, simp)+
      with Some "1.prems"(1) show ?thesis by (simp add: candidate_exact)
    qed
  qed
qed

lemma Number_toString_exact:
  assumes "x < 2 ^ 53"
  shows "Number_toString x = decimal_digits x"
proof (cases "x = 0")
  case True
  then show ?thesis
    by (simp add: Number_toString_def decimal_digits.simps digit_char_def)
next
  case False
  define D where "D = decimal_length x"
  have "x < 10 ^ D" unfolding D_def by (rule decimal_length_upper)
  then have "10 ^ D \<noteq> x" by simp
  with assms have no: "round_nat (10 ^ D) \<noteq> x"
    using round_nat_exact [of x "10 ^ D"] by auto
  obtain s j where sj: "shortest_digits x D (D - 1) = (s, j)"
    by (cases "shortest_digits x D (D - 1)")
  with assms have x: "s * 10 ^ j = x" by (rule shortest_digits_exact)
  with False have s: "0 < s" by (cases "s = 0") auto
  from assms have "x < 10 ^ 16" by simp
  then have "decimal_length x \<le> 16" by (rule decimal_length_le) simp
  with s x have n: "decimal_length s + j \<le> 21"
    using decimal_length_shift [of s j] by simp
  from s have "decimal_digits s @ replicate j (CHR ''0'') = decimal_digits (s * 10 ^ j)"
    by (simp add: decimal_digits_shift)
  with False no sj n x show ?thesis
    by (simp add: Number_toString_def Let_def D_def [symmetric])
qed

lemma toString_nat: "x < 2 ^ 53 \<Longrightarrow> toString (int x) = decimal_digits x"
  by (simp add: toString_def Number_toString_exact)

lemma js_rem_nonneg: "0 \<le> a \<Longrightarrow> 0 < b \<Longrightarrow> js_rem a b = a mod b"
  by (cases "a = 0") (simp_all add: js_rem_def)

lemma formatTime_nat:
  assumes "s \<le> MAX_SAFE_INTEGER"
  shows "formatTime (int s) =
     padStart 2 (CHR ''0'') (decimal_digits (s div 60)) @ '':'' @
     padStart 2 (CHR ''0'') (decimal_digits (s mod 60))"
proof -
  from assms have s: "s < 2 ^ 53" by (simp add: MAX_SAFE_INTEGER_def)
  then have "s div 60 < 2 ^ 53" by (rule le_less_trans [OF div_le_dividend])
  then have m: "toString (int (s div 60)) = decimal_digits (s div 60)" by (rule toString_nat)
  have "s mod 60 < 2 ^ 53" by (rule less_trans [of _ 60]) simp_all
  then have r: "toString (int (s mod 60)) = decimal_digits (s mod 60)" by (rule toString_nat)
  have "js_rem (int s) 60 = int (s mod 60)"
    by (simp add: js_rem_nonneg zmod_int)
  with s m r show ?thesis
    by (simp add: formatTime_def Let_def Math_floor_div_exact)
qed

text \<open>Evaluation on numerals.\<close>

lemma bit_length_numeral:
  "bit_length 0 = 0" "bit_length (Suc 0) = 1"
  "bit_length (numeral k) = 1 + bit_length (numeral k div 2)"
  by (simp_all add: bit_length.simps [of 0] bit_length.simps [of "Suc 0"]
        bit_length.simps [of "numeral k"])

lemma decimal_length_numeral:
  "decimal_length 0 = 1" "decimal_length (Suc 0) = 1"
  "decimal_length (numeral k) =
     (if numeral k < (10::nat) then 1 else 1 + decimal_length (numeral k div 10))"
  by (simp_all add: decimal_length.simps [of 0] decimal_length.simps [of "Suc 0"]
        decimal_length.simps [of "numeral k"])

lemma decimal_digits_numeral:
  "decimal_digits 0 = ''0''" "decimal_digits (Suc 0) = ''1''"
  "decimal_digits (numeral k) =
     (if numeral k < (10::nat) then [digit_char (numeral k)]
      else decimal_digits (numeral k div 10) @ [digit_char (numeral k mod 10)])"
  by (simp_all add: decimal_digits.simps [of 0] decimal_digits.simps [of "Suc 0"]
        decimal_digits.simps [of "numeral k"] digit_char_def)

lemma shortest_digits_numeral:
  "shortest_digits x D 0 = (x, 0)"
  "shortest_digits x D (Suc 0) =
     (case candidate x D (Suc 0) of Some s \<Rightarrow> (s, Suc 0) | None \<Rightarrow> (x, 0))"
  "shortest_digits x D (numeral k) =
     (case candidate x D (numeral k) of Some s \<Rightarrow> (s, numeral k)
      | None \<Rightarrow> shortest_digits x D (numeral k - 1))"
  by (simp_all add: shortest_digits.simps [of x D 0] shortest_digits.simps [of x D "Suc 0"]
        shortest_digits.simps [of x D "numeral k"] split: option.splits)

lemmas round_eval = bit_length_numeral round_nat_def round_half_even_def Let_def

lemma is_double_example: "is_double (10 ^ 21)"
  by (simp add: is_double_def round_eval)

lemma Math_floor_div_example: "Math_floor_div (10 ^ 21) 60 = 16666666666666665984"
  by (simp add: Math_floor_div_def double_quot_def floor_double_def round_eval)

lemma Number_toString_example:
  "Number_toString 16666666666666665984 = ''16666666666666666000''"
proof -
  have D: "decimal_length 16666666666666665984 = 20"
    by (simp add: decimal_length_numeral)
  have no: "round_nat (10 ^ 20) \<noteq> 16666666666666665984"
    by (simp add: round_eval)
  have sj: "shortest_digits 16666666666666665984 20 19 = (16666666666666666, 3)"
    by (simp add: shortest_digits_numeral candidate_def round_eval)
  have k: "decimal_length 16666666666666666 = 17"
    by (simp add: decimal_length_numeral)
  have ds: "decimal_digits 16666666666666666 = ''16666666666666666''"
    by (simp add: decimal_digits_numeral digit_char_def)
  have r: "replicate 3 (CHR ''0'') = ''000''"
    by (simp add: numeral_3_eq_3)
  show ?thesis
    unfolding Number_toString_def Let_def D using no by (simp add: sj k ds r)
qed

lemma formatTime_at_10_21:
  "formatTime (10 ^ 21) = ''16666666666666666000:40''"
proof -
  have "js_rem (10 ^ 21) 60 = 40" by (simp add: js_rem_def)
  moreover have "toString 40 = ''40''"
    using toString_nat [of 40] by (simp add: decimal_digits_numeral digit_char_def)
  moreover have "toString 16666666666666665984 = ''16666666666666666000''"
    using Number_toString_example by (simp add: toString_def)
  ultimately show ?thesis
    using Math_floor_div_example by (simp add: formatTime_def padStart_def)
qed

lemma formatTime_examples:
  "formatTime 1500 = ''25:00''" "formatTime 0 = ''00:00''" "formatTime 6000 = ''100:00''"
  "formatTime 59 = ''00:59''"
  using formatTime_nat [of 1500] formatTime_nat [of 0] formatTime_nat [of 6000]
    formatTime_nat [of 59]
  by (simp_all add: MAX_SAFE_INTEGER_def padStart_def decimal_digits_numeral digit_char_def)

text \<open>Negative numbers, and a number whose minutes print with an exponent.\<close>

lemma formatTime_negative: "formatTime (- 1) = ''-1:-1''" "formatTime (- 60) = ''-1:00''"
proof -
  have q: "double_quot (Suc 0) 60 = (4803839602528529, - 58)"
    "double_quot 60 60 = (4503599627370496, - 52)"
    by (simp_all add: double_quot_def round_eval)
  have one: "Number_toString (Suc 0) = ''1''" "Number_toString 0 = ''0''"
    using Number_toString_exact [of "Suc 0"] Number_toString_exact [of 0]
    by (simp_all add: decimal_digits_numeral)
  from q one show "formatTime (- 1) = ''-1:-1''" "formatTime (- 60) = ''-1:00''"
    by (simp_all add: formatTime_def Math_floor_div_def ceiling_double_def toString_def
          js_rem_def padStart_def)
qed

lemma formatTime_exponent: "is_double (6 * 10 ^ 22)" "formatTime (6 * 10 ^ 22) = ''1e+21:00''"
proof -
  show "is_double (6 * 10 ^ 22)"
    by (simp add: is_double_def round_eval)
  have m: "Math_floor_div (6 * 10 ^ 22) 60 = 10 ^ 21"
    by (simp add: Math_floor_div_def double_quot_def floor_double_def round_eval)
  have D: "decimal_length 1000000000000000000000 = 22"
    by (simp add: decimal_length_numeral)
  have no: "round_nat (10 ^ 22) \<noteq> 1000000000000000000000"
    by (simp add: round_eval)
  have sj: "shortest_digits 1000000000000000000000 22 21 = (1, 21)"
    by (simp add: shortest_digits_numeral candidate_def round_eval)
  have "Number_toString 1000000000000000000000 = ''1e+21''"
    unfolding Number_toString_def Let_def D using no
    by (simp add: sj exponential_def decimal_length_numeral decimal_digits_numeral digit_char_def)
  moreover have "Number_toString 0 = ''0''"
    by (simp add: Number_toString_def)
  ultimately show "formatTime (6 * 10 ^ 22) = ''1e+21:00''"
    using m by (simp add: formatTime_def toString_def js_rem_def padStart_def)
qed

text \<open>The number \<open>10^21\<close> is a double. The quotient is rounded to a multiple of 2048, and
  its shortest digits are seventeen: the minutes printed are not \<open>10^21 div 60\<close>.\<close>

theorem formatTime_beyond_safe_integers:
  "is_double (10 ^ 21) \<and>
   formatTime (10 ^ 21) = ''16666666666666666000:40'' \<and>
   digits_val ''16666666666666666000'' \<noteq> 10 ^ 21 div 60"
proof -
  have "digits_val ''16666666666666666000'' = 16666666666666666000"
    by (simp add: digits_val_def digit_val_def)
  then have "digits_val ''16666666666666666000'' \<noteq> 10 ^ 21 div 60"
    by simp
  with is_double_example formatTime_at_10_21 show ?thesis
    by (intro conjI)
qed

text \<open>
  C10, as amended. For a number of seconds \<open>s\<close> that is a natural number up to
  \<open>2^53 - 1\<close>, the largest integer below which every integer is a double, \<open>formatTime\<close>
  returns minutes, a colon and seconds: the minutes part consists of decimal digits,
  reads back as \<open>s div 60\<close>, has two characters or more and a leading zero only to reach
  two; the seconds part consists of decimal digits, reads back as \<open>s mod 60\<close> and has
  exactly two characters.
\<close>

theorem formatTime_decimal:
  assumes "s \<le> MAX_SAFE_INTEGER"
  shows "\<exists>mm ss. formatTime (int s) = mm @ '':'' @ ss
           \<and> list_all is_digit mm \<and> digits_val mm = s div 60
           \<and> 2 \<le> length mm \<and> (2 < length mm \<longrightarrow> hd mm \<noteq> CHR ''0'')
           \<and> list_all is_digit ss \<and> digits_val ss = s mod 60 \<and> length ss = 2"
proof -
  let ?m = "s div 60" and ?r = "s mod 60"
  let ?mm = "padStart 2 (CHR ''0'') (decimal_digits ?m)"
  let ?ss = "padStart 2 (CHR ''0'') (decimal_digits ?r)"
  have eq: "formatTime (int s) = ?mm @ '':'' @ ?ss"
    using assms by (rule formatTime_nat)
  have zeros: "list_all is_digit (replicate k (CHR ''0''))" for k
    by (induction k) (simp_all add: is_digit_def)
  have pad_digits: "list_all is_digit (padStart 2 (CHR ''0'') (decimal_digits n))" for n
    by (simp add: padStart_def all_digits_decimal_digits zeros)
  have pad_val: "digits_val (padStart 2 (CHR ''0'') (decimal_digits n)) = n" for n
  proof (cases "n < 10")
    case True
    then show ?thesis
      by (simp add: padStart_two_digits digits_val_def digit_val_digit_char digit_val_zero)
  next
    case False
    then show ?thesis
      by (simp add: padStart_two_digits digits_val_decimal_digits)
  qed
  have len_mm: "2 \<le> length ?mm"
    by (simp add: padStart_def)
  have hd_mm: "2 < length ?mm \<longrightarrow> hd ?mm \<noteq> CHR ''0''"
  proof (cases "?m < 10")
    case True
    then show ?thesis by (simp add: padStart_two_digits)
  next
    case False
    then show ?thesis by (simp add: padStart_two_digits hd_decimal_digits)
  qed
  have len_ss: "length ?ss = 2"
  proof (cases "?r < 10")
    case True
    then show ?thesis by (simp add: padStart_two_digits)
  next
    case False
    then show ?thesis by (simp add: padStart_two_digits length_decimal_digits_two)
  qed
  from eq pad_digits pad_val len_mm hd_mm len_ss show ?thesis
    by blast
qed

text \<open>At 6000 seconds, where the minutes take three characters (\<open>100:00\<close>).\<close>

theorem formatTime_decimal_witness:
  "(6000::nat) \<le> MAX_SAFE_INTEGER \<and>
   (\<exists>mm ss. formatTime (int 6000) = mm @ '':'' @ ss
           \<and> list_all is_digit mm \<and> digits_val mm = 6000 div 60
           \<and> 2 \<le> length mm \<and> (2 < length mm \<longrightarrow> hd mm \<noteq> CHR ''0'')
           \<and> list_all is_digit ss \<and> digits_val ss = 6000 mod 60 \<and> length ss = 2)"
proof -
  have h: "(6000::nat) \<le> MAX_SAFE_INTEGER"
    by (simp add: MAX_SAFE_INTEGER_def)
  from h formatTime_decimal [OF h] show ?thesis
    by (rule conjI)
qed

subsection \<open>Running events\<close>

lemmas handler_defs =
  onmessage_def JSON_parse_def settle_def emit_def onopen_def onerror_def onclose_def
  reconnect_def connectWebSocket_def set_readyState_def WebSocket_close_def cleanup_def
  interceptor_def fetchTimerState_def fetchTimerState_resume_def fetchStats_def
  fetchStats_resume_def initializeTimer_def initializeTimer_resume_def handleStart_def
  handleStart_resume_def handlePause_def handlePause_resume_def handleReset_def
  handleReset_resume_def await_def try_catch_def cancel_def

lemmas example_defs =
  example_client_def StudyTimer_def example_state_def example_push_def break_push_def
  ws_address_def WS_URL_def API_URL_def

lemma run_Nil: "run s [] = s"
  by (simp add: run_def)

lemma run_Cons: "run s (e # es) = run (step s e) es"
  by (simp add: run_def)

lemma run_snoc: "run s (es @ [e]) = step (run s es) e"
  by (simp add: run_def)

subsection \<open>The cached timer state\<close>

lemma timerState_message: "timerState (step s (WsMessage (JsonObject m))) = state m"
  by (simp add: handler_defs Let_def split: option.splits)

lemma timerState_fetched: "timerState (step s (StateSettled (Resolved st))) = st"
  by (simp add: handler_defs)

lemma timerState_unchanged:
  "timerState (step s Mount) = timerState s"
  "timerState (step s Unmount) = timerState s"
  "timerState (step s EffectRerun) = timerState s"
  "timerState (step s (CreateSettled p)) = timerState s"
  "timerState (step s (StatsSettled q)) = timerState s"
  "timerState (step s (WsOpen i)) = timerState s"
  "timerState (step s WsError) = timerState s"
  "timerState (step s (WsClose i)) = timerState s"
  "timerState (step s (TimerFired k)) = timerState s"
  "timerState (step s (StateSettled Rejected)) = timerState s"
  "timerState (step s (WsMessage NotJson)) = timerState s"
  "timerState (step s (WsMessage JsonNull)) = timerState s"
  by (simp_all add: handler_defs Let_def split: option.splits settled.splits)

lemma timerState_command:
  "timerState (step s (Click c)) = timerState s"
  "timerState (step s (CommandSettled c p)) = timerState s"
  by (cases c; simp add: handler_defs Let_def split: settled.splits)+

text \<open>
  C1. After a sequence of push messages has gone through the message handler, one
  after the other, the cached timer state is the \<open>state\<close> field of the last message,
  whatever the state before and whatever the earlier messages: each message replaces
  the cached value as a whole.
\<close>

theorem last_push_wins:
  assumes "ms \<noteq> []"
  shows "timerState (run s (map (\<lambda>m. WsMessage (JsonObject m)) ms)) = state (last ms)"
proof -
  from assms obtain xs x where ms: "ms = xs @ [x]"
    by (cases ms rule: rev_cases) auto
  show ?thesis
    unfolding ms by (simp add: run_snoc timerState_message del: step.simps)
qed

text \<open>A push with a notification, then a push without one: the second is what is cached.\<close>

theorem last_push_wins_witness:
  "[break_push, example_push] \<noteq> [] \<and>
   timerState (run example_client
       [WsMessage (JsonObject break_push), WsMessage (JsonObject example_push)])
     = Some \<lparr>is_running = True, is_break = False, current_session = 1, time_remaining = 1490,
             topic = None\<rparr>"
  using last_push_wins [of "[break_push, example_push]" example_client]
  by (simp add: example_push_def example_state_def)

text \<open>
  C7. The client never advances the remaining time itself. Whenever one turn of the
  event loop changes the cached timer state, that turn is a message of the live
  connection, and the new value is the message's \<open>state\<close>, or it is the response to
  the fetch of the state, and the new value is the one fetched. A timer that fires only
  runs the reconnect callback, and leaves the cached state as it is.
\<close>

theorem timerState_only_by_push_or_fetch:
  assumes "timerState (step s e) \<noteq> timerState s"
  shows "(\<exists>m. e = WsMessage (JsonObject m) \<and> timerState (step s e) = state m) \<or>
         (\<exists>st. e = StateSettled (Resolved st) \<and> timerState (step s e) = st)"
proof (cases e)
  case (WsMessage d)
  with assms show ?thesis
    by (cases d) (simp_all only: timerState_unchanged timerState_message ws_data.simps, auto)
next
  case (StateSettled p)
  with assms show ?thesis
    by (cases p) (simp_all only: timerState_unchanged timerState_fetched, auto)
qed (use assms in \<open>simp_all only: timerState_unchanged timerState_command, auto\<close>)

theorem timerState_only_by_push_or_fetch_witness:
  "timerState (step example_client (WsMessage (JsonObject example_push)))
     \<noteq> timerState example_client \<and>
   ((\<exists>m. WsMessage (JsonObject example_push) = WsMessage (JsonObject m) \<and>
         timerState (step example_client (WsMessage (JsonObject example_push))) = state m) \<or>
    (\<exists>st. WsMessage (JsonObject example_push) = StateSettled (Resolved st) \<and>
         timerState (step example_client (WsMessage (JsonObject example_push))) = st))"
proof -
  have h: "timerState (step example_client (WsMessage (JsonObject example_push)))
             \<noteq> timerState example_client"
    by (simp add: timerState_message example_push_def example_client_def StudyTimer_def
          del: step.simps)
  from h timerState_only_by_push_or_fetch [OF h] show ?thesis
    by (rule conjI)
qed

subsection \<open>Commands\<close>

text \<open>
  C5. Pressing start, pause or reset leaves the cached timer state as it is, and so
  does the turn in which the request of the command settles, whether it is resolved or
  rejected: a command handler never writes the cached state.
\<close>

theorem commands_keep_timerState:
  "timerState (step s (Click c)) = timerState s \<and>
   timerState (step s (CommandSettled c p)) = timerState s"
  by (simp only: timerState_command)

text \<open>
  C6. When the request of a command is rejected, the handler catches the rejection and
  returns normally; the turn adds the log line of the API client and one error toast
  naming the command, and nothing else of the client changes, the cached timer state
  included.
\<close>

theorem command_rejection_is_a_toast:
  "command_resume c Rejected (interceptor (Rejected :: unit settled) s) =
     Inr (emit (ToastError (case c of Start \<Rightarrow> ''Failed to start timer''
                                  | Pause \<Rightarrow> ''Failed to pause timer''
                                  | Reset \<Rightarrow> ''Failed to reset timer''))
            (interceptor (Rejected :: unit settled) s)) \<and>
   step s (CommandSettled c Rejected) =
     s\<lparr>effects := effects s @
          [ConsoleError ''API Error:'',
           ToastError (case c of Start \<Rightarrow> ''Failed to start timer''
                            | Pause \<Rightarrow> ''Failed to pause timer''
                            | Reset \<Rightarrow> ''Failed to reset timer'')]\<rparr> \<and>
   timerState (step s (CommandSettled c Rejected)) = timerState s"
  by (cases c) (simp_all add: handler_defs)

subsection \<open>Notifications of a push\<close>

text \<open>A push with the notification \<open>""\<close>: the field is present, and nothing is shown.\<close>

theorem empty_notification_is_silent:
  "effects (step example_client
      (WsMessage (JsonObject \<lparr>state = Some example_state, notification = Some ''''\<rparr>))) = []"
  by (simp add: handler_defs example_client_def StudyTimer_def)

text \<open>
  C8, as amended. A push whose \<open>notification\<close> is a string that is not empty shows a
  success toast with exactly that text, for 5000 ms, and after it a system
  notification titled \<open>Study Timer\<close> with the same text as its body when the window
  has \<open>Notification\<close> and its permission is \<open>granted\<close>. A push whose \<open>notification\<close> is
  missing, \<open>null\<close> or the empty string shows nothing. In every case the cached timer
  state becomes the \<open>state\<close> of the push.
\<close>

theorem push_notification:
  "effects (step s (WsMessage (JsonObject m))) =
     effects s @
       (case notification m of
          None \<Rightarrow> []
        | Some text \<Rightarrow>
            if text = [] then []
            else ToastSuccess text (Some 5000) #
                 (if notification_permission s = Some PermissionGranted
                  then [SystemNotification ''Study Timer'' text] else [])) \<and>
   timerState (step s (WsMessage (JsonObject m))) = state m"
  by (simp add: handler_defs Let_def split: option.splits)

lemma push_examples:
  "effects (step example_client (WsMessage (JsonObject break_push))) =
     [ToastSuccess ''Break time!'' (Some 5000), SystemNotification ''Study Timer'' ''Break time!'']"
  "effects (step (example_client\<lparr>notification_permission := Some PermissionDenied\<rparr>)
             (WsMessage (JsonObject break_push))) = [ToastSuccess ''Break time!'' (Some 5000)]"
  "effects (step (example_client\<lparr>notification_permission := None\<rparr>)
             (WsMessage (JsonObject break_push))) = [ToastSuccess ''Break time!'' (Some 5000)]"
  "effects (step example_client (WsMessage (JsonObject example_push))) = []"
  by (simp_all add: handler_defs example_defs)

text \<open>A message that is not JSON, or is the JSON \<open>null\<close>, makes the handler throw before
  it has written anything.\<close>

lemma malformed_message:
  "step s (WsMessage NotJson) = emit (Uncaught SyntaxError) s"
  "step s (WsMessage JsonNull) = emit (Uncaught TypeError) s"
  by (simp_all add: handler_defs)

subsection \<open>The address of the live connection\<close>

lemma String_replace_prefix: "pat \<noteq> [] \<Longrightarrow> String_replace pat rep (pat @ cs) = rep @ cs"
  by (cases pat) simp_all

lemma WS_URL_http: "WS_URL (Some (''http'' @ cs)) = ''ws'' @ cs"
  unfolding WS_URL_def API_URL_def
  using String_replace_prefix [of "''http''" "''ws''" cs] by simp

lemma connectWebSocket_address:
  "effects (connectWebSocket s) =
     effects s @ [NewWebSocket (ws_address (NEXT_PUBLIC_API_URL s) (userId s))]"
  "sockets (connectWebSocket s) =
     sockets s @ [\<lparr>url = ws_address (NEXT_PUBLIC_API_URL s) (userId s), readyState = CONNECTING\<rparr>]"
  by (simp_all add: connectWebSocket_def emit_def Let_def)

text \<open>A base address whose scheme is written in capitals keeps it: \<open>replace\<close> looks
  for the lower-case text \<open>http\<close>.\<close>

theorem upper_case_scheme_is_kept:
  "ws_address (Some ''HTTPS://api.example.org'') ''u1'' =
     ''HTTPS://api.example.org/api/timer/ws/u1''"
  by (simp add: ws_address_def WS_URL_def API_URL_def)

text \<open>
  C9, as amended. For a base address that begins with \<open>http://\<close> or \<open>https://\<close> in
  lower case, and every identity key, the address of the live connection is the base
  address with \<open>http\<close> replaced by \<open>ws\<close> (so \<open>https\<close> by \<open>wss\<close>), followed by
  \<open>/api/timer/ws/\<close> and the identity key; this is the address the WebSocket is
  constructed with.
\<close>

theorem ws_address_scheme:
  "ws_address (Some (''http://'' @ rest)) uid = ''ws://'' @ rest @ ''/api/timer/ws/'' @ uid \<and>
   ws_address (Some (''https://'' @ rest)) uid = ''wss://'' @ rest @ ''/api/timer/ws/'' @ uid \<and>
   effects (connectWebSocket s) =
     effects s @ [NewWebSocket (ws_address (NEXT_PUBLIC_API_URL s) (userId s))]"
  using WS_URL_http [of "''://'' @ rest"] WS_URL_http [of "''s://'' @ rest"]
  by (simp add: ws_address_def connectWebSocket_address)

text \<open>The default base address, and what \<open>replace\<close> does when the first \<open>http\<close> is not
  the scheme.\<close>

lemma ws_address_examples:
  "ws_address None ''u1'' = ''ws://localhost:8000/api/timer/ws/u1''"
  "ws_address (Some []) ''u1'' = ''ws://localhost:8000/api/timer/ws/u1''"
  "ws_address (Some ''https://api.example.org'') ''default_user'' =
     ''wss://api.example.org/api/timer/ws/default_user''"
  "ws_address (Some ''//httpd.example.org'') ''u1'' = ''//wsd.example.org/api/timer/ws/u1''"
  by (simp_all add: ws_address_def WS_URL_def API_URL_def)

subsection \<open>Mounting\<close>

text \<open>The effect opens the socket in the turn in which it issues the create request,
  ahead of the two fetches, which wait for the create request to resolve.\<close>

theorem mount_opens_connection_at_once:
  "effects (run example_client [Mount]) =
     [Http (createTimer ''u1'' (Some 25) (Some 5) (Some 15) (Some 4)),
      NewWebSocket ''ws://localhost:8000/api/timer/ws/u1''] \<and>
   effects (run example_client [Mount, CreateSettled (Resolved ())]) =
     [Http (createTimer ''u1'' (Some 25) (Some 5) (Some 15) (Some 4)),
      NewWebSocket ''ws://localhost:8000/api/timer/ws/u1'',
      Http (getTimerState ''u1''), Http (getTimerStats ''u1'')]"
  by (simp add: run_Cons run_Nil handler_defs example_defs Let_def)

text \<open>
  C3, as amended. On mount the create request for the identity key, with the durations
  25, 5, 15 and 4, is issued first, and the live connection is opened next, in the
  same turn, without waiting for the create request. The fetch of the timer state and
  then the fetch of the statistics are issued in the turn in which the create request
  resolves; when it is rejected neither is issued, and the failure is logged.
\<close>

theorem mount_order:
  "effects (step s Mount) =
     effects s @
       [Http \<lparr>http_method = POST, path = ''/api/timer/create'',
              params = [(''user_id'', Str (userId s)), (''study_duration'', Num 25),
                        (''break_duration'', Num 5), (''long_break_duration'', Num 15),
                        (''sessions_until_long_break'', Num 4)]\<rparr>,
        NewWebSocket (ws_address (NEXT_PUBLIC_API_URL s) (userId s))] \<and>
   effects (step s (CreateSettled (Resolved ()))) =
     effects s @ [Http (getTimerState (userId s)), Http (getTimerStats (userId s))] \<and>
   effects (step s (CreateSettled Rejected)) =
     effects s @ [ConsoleError ''API Error:'', ConsoleError ''Timer initialization error:'']"
  by (simp add: handler_defs Let_def createTimer_def)

subsection \<open>Closing and reconnecting\<close>

lemma ref_readyState_cancel: "ref_readyState (cancel k s) = ref_readyState s"
  by (simp add: ref_readyState_def cancel_def split: option.splits)

text \<open>Three runs of the example client: the connection open; the connection closed by
  the network, with its reconnect pending; and, after a re-run of the effect, the
  reconnect of the first socket pending while the second socket is open.\<close>

lemma open_client:
  "run example_client [Mount, WsOpen 0] =
     \<lparr>NEXT_PUBLIC_API_URL = None, notification_permission = Some PermissionGranted,
      userId = ''u1'', currentTopic = None, timerState = None, stats = None,
      isConnected = True, wsRef = Some 0,
      sockets = [\<lparr>url = ''ws://localhost:8000/api/timer/ws/u1'', readyState = OPEN\<rparr>],
      timers = [],
      effects =
        [Http (createTimer ''u1'' (Some 25) (Some 5) (Some 15) (Some 4)),
         NewWebSocket ''ws://localhost:8000/api/timer/ws/u1'',
         ConsoleLog ''WebSocket connected'']\<rparr>"
  by (simp add: run_Cons run_Nil handler_defs example_defs Let_def)

lemma closed_client:
  "run example_client [Mount, WsOpen 0, WsClose 0] =
     \<lparr>NEXT_PUBLIC_API_URL = None, notification_permission = Some PermissionGranted,
      userId = ''u1'', currentTopic = None, timerState = None, stats = None,
      isConnected = False, wsRef = Some 0,
      sockets = [\<lparr>url = ''ws://localhost:8000/api/timer/ws/u1'', readyState = CLOSED\<rparr>],
      timers = [3000],
      effects =
        [Http (createTimer ''u1'' (Some 25) (Some 5) (Some 15) (Some 4)),
         NewWebSocket ''ws://localhost:8000/api/timer/ws/u1'',
         ConsoleLog ''WebSocket connected'',
         ConsoleLog ''WebSocket disconnected'', SetTimeout 3000]\<rparr>"
  by (simp add: run_Cons run_Nil handler_defs example_defs Let_def)

lemma rerun_client:
  "run example_client [Mount, EffectRerun, WsClose 0, WsOpen 1] =
     \<lparr>NEXT_PUBLIC_API_URL = None, notification_permission = Some PermissionGranted,
      userId = ''u1'', currentTopic = None, timerState = None, stats = None,
      isConnected = True, wsRef = Some 1,
      sockets = [\<lparr>url = ''ws://localhost:8000/api/timer/ws/u1'', readyState = CLOSED\<rparr>,
                 \<lparr>url = ''ws://localhost:8000/api/timer/ws/u1'', readyState = OPEN\<rparr>],
      timers = [3000],
      effects =
        [Http (createTimer ''u1'' (Some 25) (Some 5) (Some 15) (Some 4)),
         NewWebSocket ''ws://localhost:8000/api/timer/ws/u1'',
         CloseCall 0,
         Http (createTimer ''u1'' (Some 25) (Some 5) (Some 15) (Some 4)),
         NewWebSocket ''ws://localhost:8000/api/timer/ws/u1'',
         ConsoleLog ''WebSocket disconnected'', SetTimeout 3000,
         ConsoleLog ''WebSocket connected'']\<rparr>"
  by (simp add: run_Cons run_Nil handler_defs example_defs Let_def)

text \<open>
  C4. When a socket of the client closes, for whatever reason, the connection status
  becomes disconnected and one timer of 3000 ms is added to the pending ones; the turn
  constructs no socket and schedules nothing else. When a pending timer fires, it
  leaves the pending ones and no timer takes its place, so that one close gives one
  attempt. The firing constructs a new socket, to the address of the client, and
  points the ref to it, exactly when the socket the ref points to is in the state
  \<open>CLOSED\<close>; otherwise the firing changes nothing but the pending timers.
\<close>

theorem close_schedules_one_reconnect:
  assumes "i < length (sockets s)" and "k < length (timers s')"
  shows "isConnected (step s (WsClose i)) = False \<and>
         timers (step s (WsClose i)) = timers s @ [3000] \<and>
         effects (step s (WsClose i)) =
           effects s @ [ConsoleLog ''WebSocket disconnected'', SetTimeout 3000] \<and>
         sockets (step s (WsClose i)) =
           (sockets s)[i := (sockets s ! i)\<lparr>readyState := CLOSED\<rparr>] \<and>
         timers (step s' (TimerFired k)) = take k (timers s') @ drop (Suc k) (timers s') \<and>
         step s' (TimerFired k) =
           (if ref_readyState s' = Some CLOSED
            then s'\<lparr>timers := take k (timers s') @ drop (Suc k) (timers s'),
                    sockets := sockets s' @
                      [\<lparr>url = ws_address (NEXT_PUBLIC_API_URL s') (userId s'),
                        readyState = CONNECTING\<rparr>],
                    wsRef := Some (length (sockets s')),
                    effects := effects s' @
                      [NewWebSocket (ws_address (NEXT_PUBLIC_API_URL s') (userId s'))]\<rparr>
            else s'\<lparr>timers := take k (timers s') @ drop (Suc k) (timers s')\<rparr>)"
proof -
  from assms(1) have close:
    "isConnected (step s (WsClose i)) = False"
    "timers (step s (WsClose i)) = timers s @ [3000]"
    "effects (step s (WsClose i)) =
       effects s @ [ConsoleLog ''WebSocket disconnected'', SetTimeout 3000]"
    "sockets (step s (WsClose i)) = (sockets s)[i := (sockets s ! i)\<lparr>readyState := CLOSED\<rparr>]"
    by (simp_all add: onclose_def emit_def set_readyState_def Let_def)
  from assms(2) have fire:
    "step s' (TimerFired k) =
       (if ref_readyState s' = Some CLOSED then connectWebSocket (cancel k s') else cancel k s')"
    by (simp add: reconnect_def ref_readyState_cancel)
  have state:
    "step s' (TimerFired k) =
       (if ref_readyState s' = Some CLOSED
        then s'\<lparr>timers := take k (timers s') @ drop (Suc k) (timers s'),
                sockets := sockets s' @
                  [\<lparr>url = ws_address (NEXT_PUBLIC_API_URL s') (userId s'),
                    readyState = CONNECTING\<rparr>],
                wsRef := Some (length (sockets s')),
                effects := effects s' @
                  [NewWebSocket (ws_address (NEXT_PUBLIC_API_URL s') (userId s'))]\<rparr>
        else s'\<lparr>timers := take k (timers s') @ drop (Suc k) (timers s')\<rparr>)"
    unfolding fire by (simp add: connectWebSocket_def cancel_def emit_def Let_def)
  have pending: "timers (step s' (TimerFired k)) = take k (timers s') @ drop (Suc k) (timers s')"
    unfolding state by simp
  from close pending state show ?thesis
    by (intro conjI)
qed

text \<open>The open connection closes: disconnected, one timer. The timer fires on the
  closed connection: a second socket, and no timer left. It fires while the socket of
  the ref is open: no socket, and no timer left.\<close>

theorem close_schedules_one_reconnect_witness:
  "0 < length (sockets (run example_client [Mount, WsOpen 0])) \<and>
   0 < length (timers (run example_client [Mount, WsOpen 0, WsClose 0])) \<and>
   0 < length (timers (run example_client [Mount, EffectRerun, WsClose 0, WsOpen 1])) \<and>
   isConnected (step (run example_client [Mount, WsOpen 0]) (WsClose 0)) = False \<and>
   timers (step (run example_client [Mount, WsOpen 0]) (WsClose 0)) = [3000] \<and>
   timers (step (run example_client [Mount, WsOpen 0, WsClose 0]) (TimerFired 0)) = [] \<and>
   sockets (step (run example_client [Mount, WsOpen 0, WsClose 0]) (TimerFired 0)) =
     [\<lparr>url = ''ws://localhost:8000/api/timer/ws/u1'', readyState = CLOSED\<rparr>,
      \<lparr>url = ''ws://localhost:8000/api/timer/ws/u1'', readyState = CONNECTING\<rparr>] \<and>
   timers (step (run example_client [Mount, EffectRerun, WsClose 0, WsOpen 1])
             (TimerFired 0)) = [] \<and>
   sockets (step (run example_client [Mount, EffectRerun, WsClose 0, WsOpen 1])
              (TimerFired 0)) =
     [\<lparr>url = ''ws://localhost:8000/api/timer/ws/u1'', readyState = CLOSED\<rparr>,
      \<lparr>url = ''ws://localhost:8000/api/timer/ws/u1'', readyState = OPEN\<rparr>]"
proof -
  let ?a = "run example_client [Mount, WsOpen 0]"
  let ?b = "run example_client [Mount, WsOpen 0, WsClose 0]"
  let ?c = "run example_client [Mount, EffectRerun, WsClose 0, WsOpen 1]"
  have ha: "0 < length (sockets ?a)"
    by (simp only: open_client) simp
  have hb: "0 < length (timers ?b)"
    by (simp only: closed_client) simp
  have hc: "0 < length (timers ?c)"
    by (simp only: rerun_client) simp
  have rb: "ref_readyState ?b = Some CLOSED"
    by (simp only: closed_client) (simp add: ref_readyState_def)
  have rc: "ref_readyState ?c = Some OPEN"
    by (simp only: rerun_client) (simp add: ref_readyState_def)
  have tb: "timers ?b = [3000]"
    by (simp only: closed_client) simp
  have tc: "timers ?c = [3000]"
    by (simp only: rerun_client) simp
  have sc: "sockets ?c =
     [\<lparr>url = ''ws://localhost:8000/api/timer/ws/u1'', readyState = CLOSED\<rparr>,
      \<lparr>url = ''ws://localhost:8000/api/timer/ws/u1'', readyState = OPEN\<rparr>]"
    by (simp only: rerun_client) simp
  have sb: "sockets ?b @
      [\<lparr>url = ws_address (NEXT_PUBLIC_API_URL ?b) (userId ?b), readyState = CONNECTING\<rparr>] =
     [\<lparr>url = ''ws://localhost:8000/api/timer/ws/u1'', readyState = CLOSED\<rparr>,
      \<lparr>url = ''ws://localhost:8000/api/timer/ws/u1'', readyState = CONNECTING\<rparr>]"
    by (simp only: closed_client) (simp add: ws_address_def WS_URL_def API_URL_def)
  note B = close_schedules_one_reconnect [OF ha hb]
  note C = close_schedules_one_reconnect [OF ha hc]
  have 1: "isConnected (step ?a (WsClose 0)) = False"
    using B by (rule conjunct1)
  have 2: "timers (step ?a (WsClose 0)) = [3000]"
    using B by (simp only: open_client) simp
  note Tb = B [THEN conjunct2, THEN conjunct2, THEN conjunct2, THEN conjunct2, THEN conjunct1]
  note Eb = B [THEN conjunct2, THEN conjunct2, THEN conjunct2, THEN conjunct2, THEN conjunct2]
  note Tc = C [THEN conjunct2, THEN conjunct2, THEN conjunct2, THEN conjunct2, THEN conjunct1]
  note Ec = C [THEN conjunct2, THEN conjunct2, THEN conjunct2, THEN conjunct2, THEN conjunct2]
  have 3: "timers (step ?b (TimerFired 0)) = []"
    using Tb tb by (simp del: step.simps)
  have 4: "sockets (step ?b (TimerFired 0)) =
     [\<lparr>url = ''ws://localhost:8000/api/timer/ws/u1'', readyState = CLOSED\<rparr>,
      \<lparr>url = ''ws://localhost:8000/api/timer/ws/u1'', readyState = CONNECTING\<rparr>]"
    using Eb rb sb by (simp del: step.simps)
  have 5: "timers (step ?c (TimerFired 0)) = []"
    using Tc tc by (simp del: step.simps)
  have 6: "sockets (step ?c (TimerFired 0)) =
     [\<lparr>url = ''ws://localhost:8000/api/timer/ws/u1'', readyState = CLOSED\<rparr>,
      \<lparr>url = ''ws://localhost:8000/api/timer/ws/u1'', readyState = OPEN\<rparr>]"
    using Ec rc sc by (simp del: step.simps)
  from ha hb hc 1 2 3 4 5 6 show ?thesis
    by (intro conjI)
qed

text \<open>
  C2 says that no connection is opened once the component has been unmounted. The
  code opens one: the connection closes and its reconnect is scheduled; the component
  is unmounted before the timer fires, and the cleanup calls \<open>close\<close> on the socket
  without cancelling the timer; the timer fires, the callback finds the socket of the
  ref closed and constructs a new WebSocket. The same happens when it is the cleanup
  that closes the open connection.
\<close>

theorem reconnect_after_unmount:
  "effects (run example_client [Mount, WsOpen 0, WsClose 0, Unmount, TimerFired 0]) =
     effects (run example_client [Mount, WsOpen 0, WsClose 0, Unmount]) @
       [NewWebSocket ''ws://localhost:8000/api/timer/ws/u1''] \<and>
   sockets (run example_client [Mount, WsOpen 0, WsClose 0, Unmount, TimerFired 0]) =
     [\<lparr>url = ''ws://localhost:8000/api/timer/ws/u1'', readyState = CLOSED\<rparr>,
      \<lparr>url = ''ws://localhost:8000/api/timer/ws/u1'', readyState = CONNECTING\<rparr>] \<and>
   sockets (run example_client [Mount, WsOpen 0, Unmount, WsClose 0, TimerFired 0]) =
     [\<lparr>url = ''ws://localhost:8000/api/timer/ws/u1'', readyState = CLOSED\<rparr>,
      \<lparr>url = ''ws://localhost:8000/api/timer/ws/u1'', readyState = CONNECTING\<rparr>]"
  by (simp add: run_Cons run_Nil handler_defs example_defs Let_def ref_readyState_def)

end
